theory Spec2Isabelle
  imports Complex_Main "HOL-Library.Multiset" "HOL-Library.Word"
begin

section \<open>Mutations of the shadow tree\<close>

text \<open>
  The header \<^verbatim>\<open>LayoutAnimationKeyFrameManager.h\<close> defines two comparators on
  \<^verbatim>\<open>ShadowViewMutation\<close> values and declares the member functions of the
  layout-animation manager. The comparators read three things of a mutation: its
  \<^verbatim>\<open>type\<close>, the \<^verbatim>\<open>tag\<close> of its \<^verbatim>\<open>parentShadowView\<close>, and its \<^verbatim>\<open>index\<close>.
\<close>

text \<open>
  Modelled from the spec: the enum \<^verbatim>\<open>ShadowViewMutation::Type\<close> is declared in
  \<^verbatim>\<open>ShadowViewMutation.h\<close>, which the header includes and which is missing. The spec's
  data model lists the five kinds of mutation; the
  comparators name four of them and treat the fifth (Update) by falling through.
\<close>

datatype Type = Create | Delete | Insert | Remove | Update

text \<open>
  Modelled from the spec: the declaration of \<^verbatim>\<open>ShadowView\<close> (the snapshot of a node)
  is missing. The comparators only read its integer \<^verbatim>\<open>tag\<close>
  (the identity of the node). The spec distinguishes the numeric visual attributes of a
  snapshot (position, size, opacity and similarly typed properties), here a value for
  every attribute name of type \<open>'k\<close>, from everything else a snapshot carries, here a
  value of type \<open>'a\<close>; the comparators read neither. The tag and the index are C++
  signed integers that are only compared, never computed with, so they are integers
  here.
\<close>

record ('k, 'a) ShadowView =
  tag :: int
  numericAttributes :: "'k \<Rightarrow> real"
  otherAttributes :: 'a

text \<open>
  Modelled from the spec: \<^verbatim>\<open>ShadowViewMutation\<close> is declared in
  \<^verbatim>\<open>ShadowViewMutation.h\<close>, which is missing. Following the spec's data model, a mutation carries its
  type, a parent reference, the snapshot of the node before and after, and a sibling
  index.
\<close>

record ('k, 'a) ShadowViewMutation =
  type :: Type
  parentShadowView :: "('k, 'a) ShadowView"
  oldChildShadowView :: "('k, 'a) ShadowView"
  newChildShadowView :: "('k, 'a) ShadowView"
  index :: int

section \<open>The comparators\<close>

text \<open>
  \<^verbatim>\<open>shouldFirstComeBeforeSecondRemovesOnly\<close>: a single conjunction, evaluated left to
  right.
\<close>

definition shouldFirstComeBeforeSecondRemovesOnly ::
  "('k, 'a) ShadowViewMutation \<Rightarrow> ('k, 'a) ShadowViewMutation \<Rightarrow> bool" where
  "shouldFirstComeBeforeSecondRemovesOnly lhs rhs =
     ((type lhs = Remove \<and> type lhs = type rhs) \<and>
      (tag (parentShadowView lhs) = tag (parentShadowView rhs)) \<and>
      (index lhs > index rhs))"

text \<open>
  \<^verbatim>\<open>shouldFirstComeBeforeSecondMutation\<close>: the chain of early returns of the source,
  in the source's order; every path that reaches the end returns false.
\<close>

definition shouldFirstComeBeforeSecondMutation ::
  "('k, 'a) ShadowViewMutation \<Rightarrow> ('k, 'a) ShadowViewMutation \<Rightarrow> bool" where
  "shouldFirstComeBeforeSecondMutation lhs rhs =
     (if type lhs \<noteq> type rhs then
        (if type lhs = Delete then False
         else if type rhs = Delete then True
         else if type lhs = Remove \<and> type rhs = Insert then True
         else if type rhs = Remove \<and> type lhs = Insert then False
         else if type lhs = Create \<and> type rhs = Insert then True
         else if type rhs = Create \<and> type lhs = Insert then False
         else False)
      else
        (if type lhs = Remove \<and> tag (parentShadowView lhs) = tag (parentShadowView rhs) then
           (if index lhs > index rhs then True else False)
         else False))"

text \<open>A mutation with the given type, parent tag and sibling index, and nothing else.\<close>

definition mutation :: "Type \<Rightarrow> int \<Rightarrow> int \<Rightarrow> (unit, unit) ShadowViewMutation" where
  "mutation ty parentTag i =
     \<lparr> type = ty,
       parentShadowView = \<lparr> tag = parentTag, numericAttributes = (\<lambda>_. 0), otherAttributes = () \<rparr>,
       oldChildShadowView = \<lparr> tag = 0, numericAttributes = (\<lambda>_. 0), otherAttributes = () \<rparr>,
       newChildShadowView = \<lparr> tag = 0, numericAttributes = (\<lambda>_. 0), otherAttributes = () \<rparr>,
       index = i \<rparr>"

text \<open>A snapshot with the given tag, one value for all numeric attributes, and a payload.\<close>

definition snapshot :: "int \<Rightarrow> real \<Rightarrow> 'a \<Rightarrow> (unit, 'a) ShadowView" where
  "snapshot t v other = \<lparr> tag = t, numericAttributes = (\<lambda>_. v), otherAttributes = other \<rparr>"

section \<open>Sorting a batch with a comparator\<close>

text \<open>
  Modelled from the spec: the call that sorts the outgoing batch is in the implementation
  file, which is missing. The spec requires the comparator to be
  applied as a stable sort. This is the stable insertion sort: an element moves to the
  right only past elements that the comparator puts before it, so elements without a
  preference keep their order.
\<close>

fun insert_by :: "('m \<Rightarrow> 'm \<Rightarrow> bool) \<Rightarrow> 'm \<Rightarrow> 'm list \<Rightarrow> 'm list" where
  "insert_by before x [] = [x]"
| "insert_by before x (y # ys) =
     (if before y x then y # insert_by before x ys else x # y # ys)"

fun stable_sort_by :: "('m \<Rightarrow> 'm \<Rightarrow> bool) \<Rightarrow> 'm list \<Rightarrow> 'm list" where
  "stable_sort_by before [] = []"
| "stable_sort_by before (x # xs) = insert_by before x (stable_sort_by before xs)"

text \<open>
  The textbook notion the spec appeals to: a strict weak ordering is irreflexive and
  transitive, and its incomparability (neither before the other) is transitive too.
\<close>

definition strict_weak_ordering :: "('m \<Rightarrow> 'm \<Rightarrow> bool) \<Rightarrow> bool" where
  "strict_weak_ordering before =
     ((\<forall>a. \<not> before a a) \<and>
      (\<forall>a b c. before a b \<and> before b c \<longrightarrow> before a c) \<and>
      (\<forall>a b c. \<not> before a b \<and> \<not> before b a \<and> \<not> before b c \<and> \<not> before c b
                \<longrightarrow> \<not> before a c \<and> \<not> before c a))"

section \<open>The transaction interceptor\<close>

text \<open>
  Modelled from the spec: \<^verbatim>\<open>LayoutAnimation\<close> is declared in \<^verbatim>\<open>primitives.h\<close>, which is
  missing. Of an animation this model keeps the surface it belongs to, its start time (a
  reading of the millisecond clock, an unsigned 64-bit integer like the \<^verbatim>\<open>now\<close> the
  header declares) and its keyframes (of some type \<open>'f\<close>).
\<close>

record 'f LayoutAnimation =
  surfaceId :: int
  startTime :: "64 word"
  keyFrames :: "'f list"

text \<open>
  The state of the manager, as the header declares it: \<^verbatim>\<open>currentAnimation_\<close>, the
  animation configured for the next batch if there is one, and \<^verbatim>\<open>inflightAnimations_\<close>,
  the animations in flight.
\<close>

record 'f manager =
  currentAnimation :: "'f LayoutAnimation option"
  inflightAnimations :: "'f LayoutAnimation list"

text \<open>
  Modelled from the spec: \<^verbatim>\<open>MountingTransaction\<close> is declared in
  \<^verbatim>\<open>MountingTransaction.h\<close>, which is missing. It is built from
  the arguments of \<^verbatim>\<open>pullTransaction\<close>.
\<close>

record ('m, 't) MountingTransaction =
  transactionSurfaceId :: int
  number :: int
  mutations :: "'m list"
  telemetry :: 't

definition inflightKeyFramesOn :: "'f manager \<Rightarrow> int \<Rightarrow> 'f list" where
  "inflightKeyFramesOn st sid =
     concat (map keyFrames (filter (\<lambda>a. surfaceId a = sid) (inflightAnimations st)))"

text \<open>
  Modelled from the spec: the body of \<^verbatim>\<open>pullTransaction\<close> is in the implementation file,
  which is missing. Following the spec, it returns no override
  (the empty optional of the declared return type) when no animation is configured and no
  keyframe is in flight on the surface; otherwise it runs the per-transaction algorithm,
  here the parameter \<open>intercept\<close>, which yields the outgoing mutations and the new
  state of the manager, and returns them as a transaction for the same surface and
  number. The manager's state is passed in and returned.
\<close>

definition pullTransaction ::
  "('f manager \<Rightarrow> int \<Rightarrow> 'm list \<Rightarrow> 'm list \<times> 'f manager)
   \<Rightarrow> 'f manager \<Rightarrow> int \<Rightarrow> int \<Rightarrow> 't \<Rightarrow> 'm list
   \<Rightarrow> ('m, 't) MountingTransaction option \<times> 'f manager" where
  "pullTransaction intercept st sid n tel ms =
     (if currentAnimation st = None \<and> inflightKeyFramesOn st sid = [] then (None, st)
      else (case intercept st sid ms of
              (ms', st') \<Rightarrow>
                (Some \<lparr> transactionSurfaceId = sid, number = n, mutations = ms',
                        telemetry = tel \<rparr>, st')))"

section \<open>Progress of an animation\<close>








text \<open>An instance of the algorithm for concrete runs: every mutation is applied at once.\<close>

definition immediately :: "'f manager \<Rightarrow> int \<Rightarrow> 'm list \<Rightarrow> 'm list \<times> 'f manager" where
  "immediately st sid ms = (ms, st)"

section \<open>Priority rules between different types\<close>

text \<open>
  Claim C1. For two mutations of different types the comparator follows the priority
  rules: a Delete is never put before a mutation of another type, and a mutation of
  any other type is put before a Delete; a Remove is put before an Insert and the
  Insert is not put before the Remove; a Create is put before an Insert and the Insert
  is not put before the Create.
\<close>

theorem differing_types_priority:
  assumes "type a \<noteq> type b"
  shows "(type a = Delete \<longrightarrow> \<not> shouldFirstComeBeforeSecondMutation a b)
       \<and> (type b = Delete \<longrightarrow> shouldFirstComeBeforeSecondMutation a b)
       \<and> (type a = Remove \<and> type b = Insert \<longrightarrow>
            shouldFirstComeBeforeSecondMutation a b \<and> \<not> shouldFirstComeBeforeSecondMutation b a)
       \<and> (type a = Create \<and> type b = Insert \<longrightarrow>
            shouldFirstComeBeforeSecondMutation a b \<and> \<not> shouldFirstComeBeforeSecondMutation b a)"
  using assms by (auto simp add: shouldFirstComeBeforeSecondMutation_def)

theorem differing_types_priority_witness:
  "\<not> shouldFirstComeBeforeSecondMutation (mutation Delete 1 0) (mutation Update 1 0)
   \<and> shouldFirstComeBeforeSecondMutation (mutation Update 1 0) (mutation Delete 1 0)
   \<and> shouldFirstComeBeforeSecondMutation (mutation Remove 1 0) (mutation Insert 1 0)
   \<and> \<not> shouldFirstComeBeforeSecondMutation (mutation Insert 1 0) (mutation Remove 1 0)
   \<and> shouldFirstComeBeforeSecondMutation (mutation Create 1 0) (mutation Insert 1 0)
   \<and> \<not> shouldFirstComeBeforeSecondMutation (mutation Insert 1 0) (mutation Create 1 0)"
  using differing_types_priority [of "mutation Delete 1 0" "mutation Update 1 0"]
        differing_types_priority [of "mutation Update 1 0" "mutation Delete 1 0"]
        differing_types_priority [of "mutation Remove 1 0" "mutation Insert 1 0"]
        differing_types_priority [of "mutation Create 1 0" "mutation Insert 1 0"]
  by (simp add: mutation_def)

section \<open>Removes under the same parent\<close>

lemma set_insert_by: "set (insert_by before x ys) = insert x (set ys)"
  by (induction ys) auto

lemma mset_insert_by: "mset (insert_by before x ys) = add_mset x (mset ys)"
  by (induction ys) auto

lemma mset_stable_sort_by: "mset (stable_sort_by before xs) = mset xs"
  by (induction xs) (simp_all add: mset_insert_by)

lemma set_stable_sort_by: "set (stable_sort_by before xs) = set xs"
  by (induction xs) (simp_all add: set_insert_by)

text \<open>
  Inserting into a list that is in non-increasing order of a key keeps it so, when the
  comparator agrees with "has the larger key" between the list's elements and the new
  one.
\<close>

lemma sorted_insert_by:
  assumes "\<forall>y\<in>set ys. before y x = (key x < key y)"
    and "sorted_wrt (\<lambda>p q. (key q :: int) \<le> key p) ys"
  shows "sorted_wrt (\<lambda>p q. key q \<le> key p) (insert_by before x ys)"
  using assms
proof (induction ys)
  case Nil
  show ?case by simp
next
  case (Cons y ys)
  show ?case
  proof (cases "before y x")
    case True
    with Cons.prems have "key x < key y" by simp
    moreover have "sorted_wrt (\<lambda>p q. key q \<le> key p) (insert_by before x ys)"
      using Cons by simp
    ultimately show ?thesis
      using True Cons.prems by (auto simp add: set_insert_by)
  next
    case False
    with Cons.prems have "key y \<le> key x" by auto
    then show ?thesis
      using False Cons.prems by fastforce
  qed
qed

lemma sorted_stable_sort_by:
  assumes "\<forall>x\<in>set xs. \<forall>y\<in>set xs. before y x = (key x < key y)"
  shows "sorted_wrt (\<lambda>p q. (key q :: int) \<le> key p) (stable_sort_by before xs)"
  using assms
proof (induction xs)
  case Nil
  show ?case by simp
next
  case (Cons x xs)
  have "sorted_wrt (\<lambda>p q. key q \<le> key p) (stable_sort_by before xs)"
    using Cons by simp
  moreover have "\<forall>y\<in>set (stable_sort_by before xs). before y x = (key x < key y)"
    using Cons.prems by (simp add: set_stable_sort_by)
  ultimately show ?case
    by (simp add: sorted_insert_by)
qed

lemma removes_same_parent_full:
  "type a = Remove \<Longrightarrow> type b = Remove \<Longrightarrow> tag (parentShadowView a) = tag (parentShadowView b)
   \<Longrightarrow> shouldFirstComeBeforeSecondMutation a b = (index b < index a)"
  by (simp add: shouldFirstComeBeforeSecondMutation_def)

lemma removes_same_parent_only:
  "type a = Remove \<Longrightarrow> type b = Remove \<Longrightarrow> tag (parentShadowView a) = tag (parentShadowView b)
   \<Longrightarrow> shouldFirstComeBeforeSecondRemovesOnly a b = (index b < index a)"
  by (simp add: shouldFirstComeBeforeSecondRemovesOnly_def)

text \<open>
  Claim C2. For two Remove mutations whose parents have the same tag, both comparators
  put the first before the second exactly when the first has the higher sibling index.
  Hence the stable sort of a batch of Removes under one parent, by either comparator,
  is a rearrangement of the batch in non-increasing order of sibling index.
\<close>

theorem same_parent_removes_highest_index_first:
  assumes "type a = Remove" and "type b = Remove"
    and "tag (parentShadowView a) = tag (parentShadowView b)"
    and "\<forall>m\<in>set ms. type m = Remove \<and> tag (parentShadowView m) = t"
  shows "shouldFirstComeBeforeSecondMutation a b = (index b < index a)
       \<and> shouldFirstComeBeforeSecondRemovesOnly a b = (index b < index a)
       \<and> sorted_wrt (\<lambda>p q. index q \<le> index p)
           (stable_sort_by shouldFirstComeBeforeSecondMutation ms)
       \<and> mset (stable_sort_by shouldFirstComeBeforeSecondMutation ms) = mset ms
       \<and> sorted_wrt (\<lambda>p q. index q \<le> index p)
           (stable_sort_by shouldFirstComeBeforeSecondRemovesOnly ms)
       \<and> mset (stable_sort_by shouldFirstComeBeforeSecondRemovesOnly ms) = mset ms"
proof -
  have full: "\<forall>x\<in>set ms. \<forall>y\<in>set ms.
      shouldFirstComeBeforeSecondMutation y x = (index x < index y)"
    using assms(4) by (simp add: removes_same_parent_full)
  have only: "\<forall>x\<in>set ms. \<forall>y\<in>set ms.
      shouldFirstComeBeforeSecondRemovesOnly y x = (index x < index y)"
    using assms(4) by (simp add: removes_same_parent_only)
  show ?thesis
    using assms(1-3) sorted_stable_sort_by [OF full] sorted_stable_sort_by [OF only]
    by (simp add: removes_same_parent_full removes_same_parent_only mset_stable_sort_by)
qed

theorem same_parent_removes_highest_index_first_witness:
  "shouldFirstComeBeforeSecondMutation (mutation Remove 7 3) (mutation Remove 7 1)
   \<and> shouldFirstComeBeforeSecondRemovesOnly (mutation Remove 7 3) (mutation Remove 7 1)
   \<and> sorted_wrt (\<lambda>p q. index q \<le> index p)
       (stable_sort_by shouldFirstComeBeforeSecondMutation
          [mutation Remove 7 1, mutation Remove 7 3, mutation Remove 7 2])"
  using same_parent_removes_highest_index_first
    [of "mutation Remove 7 3" "mutation Remove 7 1"
        "[mutation Remove 7 1, mutation Remove 7 3, mutation Remove 7 2]" 7]
  by (simp add: mutation_def)

section \<open>The comparator as an order\<close>

lemma comparator_irreflexive: "\<not> shouldFirstComeBeforeSecondMutation a a"
  by (simp add: shouldFirstComeBeforeSecondMutation_def)

lemma comparator_asymmetric:
  "\<not> (shouldFirstComeBeforeSecondMutation a b \<and> shouldFirstComeBeforeSecondMutation b a)"
  by (auto simp add: shouldFirstComeBeforeSecondMutation_def split: if_splits)

lemma comparator_transitive:
  "shouldFirstComeBeforeSecondMutation a b \<Longrightarrow> shouldFirstComeBeforeSecondMutation b c
   \<Longrightarrow> shouldFirstComeBeforeSecondMutation a c"
  by (cases "type a"; cases "type b"; cases "type c")
     (auto simp add: shouldFirstComeBeforeSecondMutation_def split: if_splits)

lemma removes_only_asymmetric:
  "\<not> (shouldFirstComeBeforeSecondRemovesOnly a b \<and> shouldFirstComeBeforeSecondRemovesOnly b a)"
  by (auto simp add: shouldFirstComeBeforeSecondRemovesOnly_def)

text \<open>
  The comparator has no preference between a Create and an Update, nor between an Update
  and an Insert, but it puts the Create before the Insert: having no preference is not
  transitive, so the comparator is not a strict weak ordering.
\<close>

lemma comparator_not_strict_weak_ordering:
  "\<not> strict_weak_ordering
       (shouldFirstComeBeforeSecondMutation
          :: (unit, unit) ShadowViewMutation \<Rightarrow> (unit, unit) ShadowViewMutation \<Rightarrow> bool)"
proof
  assume "strict_weak_ordering
       (shouldFirstComeBeforeSecondMutation
          :: (unit, unit) ShadowViewMutation \<Rightarrow> (unit, unit) ShadowViewMutation \<Rightarrow> bool)"
  then have "\<not> shouldFirstComeBeforeSecondMutation a b \<and> \<not> shouldFirstComeBeforeSecondMutation b a
      \<and> \<not> shouldFirstComeBeforeSecondMutation b c \<and> \<not> shouldFirstComeBeforeSecondMutation c b
      \<longrightarrow> \<not> shouldFirstComeBeforeSecondMutation a c"
    for a b c :: "(unit, unit) ShadowViewMutation"
    unfolding strict_weak_ordering_def by blast
  from this [of "mutation Create 1 0" "mutation Update 1 0" "mutation Insert 1 0"]
  show False
    by (simp add: shouldFirstComeBeforeSecondMutation_def mutation_def)
qed

text \<open>
  Claim C3, as stated: the comparator is a strict weak ordering. It is not: between a
  Create, an Update and an Insert (here with the same parent and index) the comparator
  has no preference for Create against Update, none for Update against Insert, and yet
  puts the Create before the Insert. In a strict weak ordering "no preference" is
  transitive.
\<close>

theorem strict_weak_ordering_counterexample:
  "\<not> shouldFirstComeBeforeSecondMutation (mutation Create 1 0) (mutation Update 1 0)
   \<and> \<not> shouldFirstComeBeforeSecondMutation (mutation Update 1 0) (mutation Create 1 0)
   \<and> \<not> shouldFirstComeBeforeSecondMutation (mutation Update 1 0) (mutation Insert 1 0)
   \<and> \<not> shouldFirstComeBeforeSecondMutation (mutation Insert 1 0) (mutation Update 1 0)
   \<and> shouldFirstComeBeforeSecondMutation (mutation Create 1 0) (mutation Insert 1 0)"
  by (simp add: shouldFirstComeBeforeSecondMutation_def mutation_def)

text \<open>
  Claim C3, amended: the comparator is a strict partial order. For all mutations it is
  irreflexive, it never puts both \<open>a\<close> before \<open>b\<close> and \<open>b\<close> before \<open>a\<close> (and neither
  does the comparator for Removes only), and it is transitive.
\<close>

theorem comparator_strict_partial_order:
  "\<not> shouldFirstComeBeforeSecondMutation a a
   \<and> \<not> (shouldFirstComeBeforeSecondMutation a b \<and> shouldFirstComeBeforeSecondMutation b a)
   \<and> \<not> (shouldFirstComeBeforeSecondRemovesOnly a b \<and> shouldFirstComeBeforeSecondRemovesOnly b a)
   \<and> (shouldFirstComeBeforeSecondMutation a b \<and> shouldFirstComeBeforeSecondMutation b c
        \<longrightarrow> shouldFirstComeBeforeSecondMutation a c)"
  using comparator_irreflexive comparator_asymmetric removes_only_asymmetric
    comparator_transitive [of a b c]
  by blast

theorem comparator_strict_partial_order_witness:
  "shouldFirstComeBeforeSecondMutation (mutation Remove 7 3) (mutation Insert 7 0)
   \<and> shouldFirstComeBeforeSecondMutation (mutation Insert 7 0) (mutation Delete 7 0)
   \<and> shouldFirstComeBeforeSecondMutation (mutation Remove 7 3) (mutation Delete 7 0)
   \<and> \<not> shouldFirstComeBeforeSecondMutation (mutation Insert 7 0) (mutation Remove 7 3)"
  using comparator_strict_partial_order
    [of "mutation Remove 7 3" "mutation Insert 7 0" "mutation Delete 7 0"]
  by (simp add: shouldFirstComeBeforeSecondMutation_def mutation_def)

text \<open>
  Claim C4. The comparator is transitive on all mutations, whatever their types: if it
  puts \<open>a\<close> before \<open>b\<close> and \<open>b\<close> before \<open>c\<close>, it puts \<open>a\<close> before \<open>c\<close>.
\<close>

theorem comparator_transitive_all_types:
  assumes "shouldFirstComeBeforeSecondMutation a b"
    and "shouldFirstComeBeforeSecondMutation b c"
  shows "shouldFirstComeBeforeSecondMutation a c"
  using assms by (rule comparator_transitive)

theorem comparator_transitive_all_types_witness:
  "shouldFirstComeBeforeSecondMutation (mutation Remove 7 3) (mutation Remove 7 1)
   \<and> shouldFirstComeBeforeSecondMutation (mutation Remove 7 1) (mutation Insert 7 0)
   \<and> shouldFirstComeBeforeSecondMutation (mutation Remove 7 3) (mutation Insert 7 0)"
proof -
  have ab: "shouldFirstComeBeforeSecondMutation (mutation Remove 7 3) (mutation Remove 7 1)"
    by (simp add: shouldFirstComeBeforeSecondMutation_def mutation_def)
  have bc: "shouldFirstComeBeforeSecondMutation (mutation Remove 7 1) (mutation Insert 7 0)"
    by (simp add: shouldFirstComeBeforeSecondMutation_def mutation_def)
  show ?thesis
    using ab bc comparator_transitive_all_types [OF ab bc] by simp
qed

section \<open>The two comparators compared\<close>

text \<open>
  Claim C9. On two Removes the comparator for Removes only gives the answer of the full
  comparator; when at least one of the two mutations is not a Remove it answers false.
\<close>

theorem removes_only_agrees_with_full:
  "(type a = Remove \<and> type b = Remove \<longrightarrow>
      shouldFirstComeBeforeSecondRemovesOnly a b = shouldFirstComeBeforeSecondMutation a b)
   \<and> (type a \<noteq> Remove \<or> type b \<noteq> Remove \<longrightarrow> \<not> shouldFirstComeBeforeSecondRemovesOnly a b)"
  by (auto simp add: shouldFirstComeBeforeSecondRemovesOnly_def
        shouldFirstComeBeforeSecondMutation_def)

theorem removes_only_agrees_with_full_witness:
  "shouldFirstComeBeforeSecondRemovesOnly (mutation Remove 7 3) (mutation Remove 7 1)
     = shouldFirstComeBeforeSecondMutation (mutation Remove 7 3) (mutation Remove 7 1)
   \<and> shouldFirstComeBeforeSecondRemovesOnly (mutation Remove 7 3) (mutation Remove 8 1)
     = shouldFirstComeBeforeSecondMutation (mutation Remove 7 3) (mutation Remove 8 1)
   \<and> \<not> shouldFirstComeBeforeSecondRemovesOnly (mutation Remove 7 3) (mutation Delete 7 1)
   \<and> \<not> shouldFirstComeBeforeSecondRemovesOnly (mutation Insert 7 3) (mutation Remove 7 1)"
  using removes_only_agrees_with_full [of "mutation Remove 7 3" "mutation Remove 7 1"]
        removes_only_agrees_with_full [of "mutation Remove 7 3" "mutation Remove 8 1"]
        removes_only_agrees_with_full [of "mutation Remove 7 3" "mutation Delete 7 1"]
        removes_only_agrees_with_full [of "mutation Insert 7 3" "mutation Remove 7 1"]
  by (simp add: mutation_def)

section \<open>What the comparator reads\<close>

text \<open>
  Claim C10. The answer of the comparator is determined by the types, the tags of the
  parents and the sibling indices of the two mutations: two pairs of mutations that
  agree on these give the same answer, whatever their snapshots and other contents
  (the two pairs may even carry contents of different types).
\<close>

theorem comparator_reads_type_parent_tag_index:
  assumes "type a' = type a" and "tag (parentShadowView a') = tag (parentShadowView a)"
    and "index a' = index a"
    and "type b' = type b" and "tag (parentShadowView b') = tag (parentShadowView b)"
    and "index b' = index b"
  shows "shouldFirstComeBeforeSecondMutation a' b' = shouldFirstComeBeforeSecondMutation a b"
  using assms by (simp add: shouldFirstComeBeforeSecondMutation_def)

theorem comparator_reads_type_parent_tag_index_witness:
  "shouldFirstComeBeforeSecondMutation
     ((mutation Remove 7 3) \<lparr> oldChildShadowView := snapshot 41 1 () \<rparr>)
     ((mutation Remove 7 1) \<lparr> newChildShadowView := snapshot 42 2 (),
                               parentShadowView := snapshot 7 5 () \<rparr>)
   = shouldFirstComeBeforeSecondMutation (mutation Remove 7 3) (mutation Remove 7 1)"
  using comparator_reads_type_parent_tag_index
    [of "(mutation Remove 7 3) \<lparr> oldChildShadowView := snapshot 41 1 () \<rparr>"
        "mutation Remove 7 3"
        "(mutation Remove 7 1) \<lparr> newChildShadowView := snapshot 42 2 (),
                                  parentShadowView := snapshot 7 5 () \<rparr>"
        "mutation Remove 7 1"]
  by (simp add: mutation_def snapshot_def)

section \<open>Progress during and after the delay\<close>





section \<open>Zero duration\<close>




section \<open>Pass-through of a transaction\<close>

text \<open>
  Claim C8. When no layout animation is configured and no keyframe is in flight on the
  surface, \<open>pullTransaction\<close> on an empty batch of mutations returns no override and
  leaves the state of the manager as it was.
\<close>

theorem pullTransaction_pass_through:
  assumes "currentAnimation st = None" and "inflightKeyFramesOn st sid = []"
  shows "pullTransaction intercept st sid n tel [] = (None, st)"
  using assms by (simp add: pullTransaction_def)

theorem pullTransaction_pass_through_witness:
  "pullTransaction immediately
     \<lparr> currentAnimation = None,
       inflightAnimations = [\<lparr> surfaceId = 2, startTime = 0, keyFrames = [()] \<rparr>,
                             \<lparr> surfaceId = 1, startTime = 0, keyFrames = [] \<rparr>] \<rparr>
     1 5 () ([] :: (unit, unit) ShadowViewMutation list)
   = (None,
      \<lparr> currentAnimation = None,
        inflightAnimations = [\<lparr> surfaceId = 2, startTime = 0, keyFrames = [()] \<rparr>,
                             \<lparr> surfaceId = 1, startTime = 0, keyFrames = [] \<rparr>] \<rparr>)"
  using pullTransaction_pass_through
    [of "\<lparr> currentAnimation = None,
           inflightAnimations = [\<lparr> surfaceId = 2, startTime = 0, keyFrames = [()] \<rparr>,
                             \<lparr> surfaceId = 1, startTime = 0, keyFrames = [] \<rparr>] \<rparr>"
        1 immediately 5 "()"]
  by (simp add: inflightKeyFramesOn_def)

end
